theory Spec2Isabelle
  imports Main "HOL-Library.Word"
begin

section \<open>Python strings\<close>

text \<open>
  A Python \<open>str\<close> is a sequence of Unicode code points; a code point is a natural number.
  Program constants are written as HOL string literals and injected with \<open>lit\<close>.
\<close>

type_synonym str = "nat list"

definition lit :: "string \<Rightarrow> str" where
  "lit s = map of_char s"

definition SPACE :: nat where "SPACE = 32"
definition HYPHEN :: nat where "HYPHEN = 45"
definition UNDERSCORE :: nat where "UNDERSCORE = 95"

text \<open>
  \<open>str.isspace\<close> on one code point: the whitespace table of the interpreter
  (bidirectional classes WS, B, S and category Zs), which is the set \<open>str.strip()\<close> removes.
\<close>

definition isspace :: "nat \<Rightarrow> bool" where
  "isspace c =
     ((9 \<le> c \<and> c \<le> 13) \<or> (28 \<le> c \<and> c \<le> 32) \<or> c = 133 \<or> c = 160 \<or> c = 5760 \<or>
      (8192 \<le> c \<and> c \<le> 8202) \<or> c = 8232 \<or> c = 8233 \<or> c = 8239 \<or> c = 8287 \<or> c = 12288)"

definition py_lstrip :: "str \<Rightarrow> str" where
  "py_lstrip s = dropWhile isspace s"

definition py_rstrip :: "str \<Rightarrow> str" where
  "py_rstrip s = rev (dropWhile isspace (rev s))"

definition py_strip :: "str \<Rightarrow> str" where
  "py_strip s = py_rstrip (py_lstrip s)"

text \<open>
  \<open>s.replace(old, new)\<close>: every non-overlapping occurrence, scanning from the left; an empty
  \<open>old\<close> matches before every character and at the end.
\<close>

fun py_replace :: "str \<Rightarrow> str \<Rightarrow> str \<Rightarrow> str" where
  "py_replace [] old new = (if old = [] then new else [])"
| "py_replace (c # cs) old new =
     (if old = [] then new @ c # py_replace cs old new
      else if take (length old) (c # cs) = old
        then new @ py_replace (drop (length old - 1) cs) old new
      else c # py_replace cs old new)"

text \<open>\<open>str(i)\<close> for an integer: decimal digits, a leading minus sign when negative.\<close>

fun digits :: "nat \<Rightarrow> str" where
  "digits n = (if n < 10 then [48 + n] else digits (n div 10) @ [48 + n mod 10])"

declare digits.simps [simp del]

definition str_int :: "int \<Rightarrow> str" where
  "str_int i = (if i < 0 then 45 # digits (nat (- i)) else digits (nat i))"

text \<open>\<open>posixpath.join\<close> of two components.\<close>

definition os_path_join :: "str \<Rightarrow> str \<Rightarrow> str" where
  "os_path_join a b =
     (if take 1 b = lit ''/'' then b
      else if a = [] \<or> drop (length a - 1) a = lit ''/'' then a @ b
      else a @ lit ''/'' @ b)"

section \<open>The interpreter and the operating system\<close>

text \<open>
  Exceptions carry their message. \<open>FileNotFoundError\<close> and \<open>PermissionError\<close> are the two
  subclasses of \<open>OSError\<close> the program names; \<open>OSError\<close> stands for every other one.
\<close>

datatype exn =
    FileNotFoundError str
  | PermissionError str
  | OSError str
  | TimeoutExpired str
  | KeyError str
  | OtherException str

fun exn_str :: "exn \<Rightarrow> str" where
  "exn_str (FileNotFoundError m) = m"
| "exn_str (PermissionError m) = m"
| "exn_str (OSError m) = m"
| "exn_str (TimeoutExpired m) = m"
| "exn_str (KeyError m) = m"
| "exn_str (OtherException m) = m"

text \<open>A number held in a parameter dictionary: a Python \<open>int\<close>, or a \<open>float\<close> (an IEEE double).\<close>

datatype pynum = PyInt int | PyFloat "64 word"

type_synonym params = "str \<rightharpoonup> pynum"

text \<open>
  The file system as far as the program touches it, the console, and the working directory.
  Whether a path refuses to be opened for writing or to be unlinked (permissions, a name that
  is too long, a full disk) is a property of the environment: \<open>write_fault\<close> and
  \<open>remove_fault\<close> give the exception raised, if any.
\<close>

record world =
  files :: "str \<rightharpoonup> str"
  console :: str
  cwd :: str
  write_fault :: "str \<Rightarrow> exn option"
  remove_fault :: "str \<Rightarrow> exn option"

record completed =
  returncode :: int
  stderr :: str

text \<open>
  What the program takes from its runtime: \<open>str.isalnum\<close> beyond ASCII (the Unicode
  character database), \<open>float(s)\<close> (\<open>None\<close> is \<open>ValueError\<close>), \<open>str(x)\<close> of a float, and
  \<open>subprocess.run(argv, timeout=t)\<close>, an external process that may change the world in any
  way and either completes with an exit code or raises.
\<close>

record runtime =
  unicode_alnum :: "nat \<Rightarrow> bool"
  float_of_str :: "str \<Rightarrow> 64 word option"
  str_of_float :: "64 word \<Rightarrow> str"
  subprocess_run :: "str list \<Rightarrow> nat \<Rightarrow> world \<Rightarrow> (exn + completed) \<times> world"

definition isalnum :: "runtime \<Rightarrow> nat \<Rightarrow> bool" where
  "isalnum rt c =
     (if c < 128 then (48 \<le> c \<and> c \<le> 57) \<or> (65 \<le> c \<and> c \<le> 90) \<or> (97 \<le> c \<and> c \<le> 122)
      else unicode_alnum rt c)"

definition NL :: str where "NL = [10]"

text \<open>
  \<open>print(s, end=e)\<close> on a standard output that can encode every character (UTF-8). On a
  narrower encoding \<open>print\<close> raises \<open>UnicodeEncodeError\<close> for a character it cannot
  encode, the two markers U+2713 and U+2717 among them; such a console is not part of this
  model, and nothing below speaks about it.
\<close>

definition print :: "str \<Rightarrow> str \<Rightarrow> world \<Rightarrow> world" where
  "print s end w = w\<lparr>console := console w @ s @ end\<rparr>"

definition open_write :: "str \<Rightarrow> str \<Rightarrow> world \<Rightarrow> (exn + unit) \<times> world" where
  "open_write path content w =
     (case write_fault w path of
        Some e \<Rightarrow> (Inl e, w)
      | None \<Rightarrow> (Inr (), w\<lparr>files := (files w)(path \<mapsto> content)\<rparr>))"

definition os_path_exists :: "str \<Rightarrow> world \<Rightarrow> bool" where
  "os_path_exists path w = (files w path \<noteq> None)"

text \<open>
  \<open>os.remove\<close>. The message of \<open>FileNotFoundError\<close> quotes the path as \<open>repr\<close> does for a
  path without quotes, backslashes or unprintable characters.
\<close>

definition os_remove :: "str \<Rightarrow> world \<Rightarrow> (exn + unit) \<times> world" where
  "os_remove path w =
     (case remove_fault w path of
        Some e \<Rightarrow> (Inl e, w)
      | None \<Rightarrow>
          (case files w path of
             None \<Rightarrow>
               (Inl (FileNotFoundError
                       (lit ''[Errno 2] No such file or directory: '' @ [39] @ path @ [39])), w)
           | Some content \<Rightarrow> (Inr (), w\<lparr>files := (files w)(path := None)\<rparr>)))"

definition os_path_abspath :: "str \<Rightarrow> world \<Rightarrow> str" where
  "os_path_abspath path w = os_path_join (cwd w) path"

section \<open>Configuration\<close>

definition OUTPUT_DIR :: str where
  "OUTPUT_DIR = lit ''generated_nametags''"

definition DEFAULT_ITEMS :: "(str \<times> pynum) list" where
  "DEFAULT_ITEMS =
    [(lit ''nametag_width'', PyInt 80),
     (lit ''nametag_height'', PyInt 30),
     (lit ''nametag_thickness'', PyInt 3),
     (lit ''text_size'', PyInt 8),
     (lit ''text_height'', PyFloat 0x3FF8000000000000),
     (lit ''ring_width'', PyInt 3),
     (lit ''ring_height'', PyFloat 0x3FF3333333333333),
     (lit ''mounting_hole_diameter'', PyInt 4),
     (lit ''corner_radius'', PyInt 3)]"

definition DEFAULT_PARAMS :: params where
  "DEFAULT_PARAMS = map_of DEFAULT_ITEMS"

definition DEFAULT_KEYS :: "str list" where
  "DEFAULT_KEYS = map fst DEFAULT_ITEMS"

section \<open>find_openscad\<close>

definition possible_paths :: "str list" where
  "possible_paths =
    [lit ''openscad'',
     lit ''/usr/bin/openscad'',
     lit ''/usr/local/bin/openscad'',
     lit ''C:'' @ [92] @ lit ''Program Files'' @ [92] @ lit ''OpenSCAD'' @ [92] @ lit ''openscad.exe'',
     lit ''C:'' @ [92] @ lit ''Program Files (x86)'' @ [92] @ lit ''OpenSCAD'' @ [92] @ lit ''openscad.exe'',
     lit ''/Applications/OpenSCAD.app/Contents/MacOS/OpenSCAD'']"

fun find_loop :: "runtime \<Rightarrow> str list \<Rightarrow> world \<Rightarrow> (exn + str option) \<times> world" where
  "find_loop rt [] w = (Inr None, w)"
| "find_loop rt (path # paths) w =
     (case subprocess_run rt [path, lit ''--version''] 5 w of
        (Inr result, w1) \<Rightarrow>
          if returncode result = 0
          then (Inr (Some path), print (lit ''Found OpenSCAD at: '' @ path) NL w1)
          else find_loop rt paths w1
      | (Inl (FileNotFoundError m), w1) \<Rightarrow> find_loop rt paths w1
      | (Inl (TimeoutExpired m), w1) \<Rightarrow> find_loop rt paths w1
      | (Inl (PermissionError m), w1) \<Rightarrow> find_loop rt paths w1
      | (Inl e, w1) \<Rightarrow> (Inl e, w1))"

definition find_openscad :: "runtime \<Rightarrow> world \<Rightarrow> (exn + str option) \<times> world" where
  "find_openscad rt w = find_loop rt possible_paths w"

section \<open>create_temp_scad\<close>

definition getitem :: "params \<Rightarrow> str \<Rightarrow> exn + pynum" where
  "getitem d k = (case d k of None \<Rightarrow> Inl (KeyError k) | Some v \<Rightarrow> Inr v)"

definition format_num :: "runtime \<Rightarrow> pynum \<Rightarrow> str" where
  "format_num rt v = (case v of PyInt i \<Rightarrow> str_int i | PyFloat x \<Rightarrow> str_of_float rt x)"

text \<open>
  One \<open>key = {params["key"]};\<close> line of the f-string, appended to the text rendered so far;
  a missing key raises \<open>KeyError\<close> and ends the rendering.
\<close>

fun param_lines :: "runtime \<Rightarrow> params \<Rightarrow> str list \<Rightarrow> str \<Rightarrow> exn + str" where
  "param_lines rt ps [] acc = Inr acc"
| "param_lines rt ps (k # ks) acc =
     (case getitem ps k of
        Inl e \<Rightarrow> Inl e
      | Inr v \<Rightarrow> param_lines rt ps ks (acc @ k @ lit '' = '' @ format_num rt v @ lit '';'' @ NL))"

definition TEMPLATE_KEYS :: "str list" where
  "TEMPLATE_KEYS =
    [lit ''nametag_width'', lit ''nametag_height'', lit ''nametag_thickness'',
     lit ''text_size'', lit ''text_height'', lit ''ring_width'', lit ''ring_height'',
     lit ''mounting_hole_diameter'', lit ''corner_radius'']"

definition SCAD_BODY :: str where
  "SCAD_BODY = concat [
     lit ''\<newline>'',
     lit ''// Main nametag module\<newline>'',
     lit ''module nametag() {\<newline>'',
     lit ''    difference() {\<newline>'',
     lit ''        union() {\<newline>'',
     lit ''            // Main body: rectangle on one side, semicircle on the other\<newline>'',
     lit ''            nametag_body(nametag_width, nametag_height, nametag_thickness, corner_radius);\<newline>'',
     lit ''            \<newline>'',
     lit ''            // Elevated ring around the border\<newline>'',
     lit ''            elevated_ring(nametag_width, nametag_height, nametag_thickness, ring_width, ring_height, corner_radius);\<newline>'',
     lit ''            \<newline>'',
     lit ''            // Raised text on top\<newline>'',
     lit ''            translate([nametag_width/2, nametag_height/2, nametag_thickness])\<newline>'',
     lit ''                linear_extrude(height = text_height)\<newline>'',
     lit ''                    text(name, size = text_size, halign = \"center\", valign = \"center\", font = \"Liberation Sans:style=Bold\");\<newline>'',
     lit ''        }\<newline>'',
     lit ''        \<newline>'',
     lit ''        // Mounting hole in the center of the circular side\<newline>'',
     lit ''        translate([nametag_width, nametag_height/2, -0.5])\<newline>'',
     lit ''            cylinder(h = nametag_thickness + ring_height + text_height + 1, d = mounting_hole_diameter, $fn = 30);\<newline>'',
     lit ''    }\<newline>'',
     lit ''}\<newline>'',
     lit ''\<newline>'',
     lit ''// Module to create the main body shape (rectangle + semicircle)\<newline>'',
     lit ''module nametag_body(width, height, thickness, radius) {\<newline>'',
     lit ''    hull() {\<newline>'',
     lit ''        // Rectangular side with rounded corners (left side)\<newline>'',
     lit ''        translate([radius, radius, 0])\<newline>'',
     lit ''            cylinder(r = radius, h = thickness, $fn = 30);\<newline>'',
     lit ''        translate([radius, height - radius, 0])\<newline>'',
     lit ''            cylinder(r = radius, h = thickness, $fn = 30);\<newline>'',
     lit ''        \<newline>'',
     lit ''        // Semicircle on the right side\<newline>'',
     lit ''        translate([width, height/2, 0])\<newline>'',
     lit ''            cylinder(r = height/2, h = thickness, $fn = 60);\<newline>'',
     lit ''    }\<newline>'',
     lit ''}\<newline>'',
     lit ''\<newline>'',
     lit ''// Module to create the elevated ring\<newline>'',
     lit ''module elevated_ring(width, height, thickness, ring_w, ring_h, radius) {\<newline>'',
     lit ''    difference() {\<newline>'',
     lit ''        // Outer shape (same as body but elevated)\<newline>'',
     lit ''        translate([0, 0, thickness])\<newline>'',
     lit ''            hull() {\<newline>'',
     lit ''                // Rectangular side with rounded corners\<newline>'',
     lit ''                translate([radius, radius, 0])\<newline>'',
     lit ''                    cylinder(r = radius, h = ring_h, $fn = 30);\<newline>'',
     lit ''                translate([radius, height - radius, 0])\<newline>'',
     lit ''                    cylinder(r = radius, h = ring_h, $fn = 30);\<newline>'',
     lit ''                \<newline>'',
     lit ''                // Semicircle on the right side\<newline>'',
     lit ''                translate([width, height/2, 0])\<newline>'',
     lit ''                    cylinder(r = height/2, h = ring_h, $fn = 60);\<newline>'',
     lit ''            }\<newline>'',
     lit ''        \<newline>'',
     lit ''        // Inner cutout (smaller shape)\<newline>'',
     lit ''        translate([0, 0, thickness - 0.5])\<newline>'',
     lit ''            hull() {\<newline>'',
     lit ''                // Inner rectangular side\<newline>'',
     lit ''                translate([radius + ring_w, radius + ring_w, 0])\<newline>'',
     lit ''                    cylinder(r = radius, h = ring_h + 1, $fn = 30);\<newline>'',
     lit ''                translate([radius + ring_w, height - radius - ring_w, 0])\<newline>'',
     lit ''                    cylinder(r = radius, h = ring_h + 1, $fn = 30);\<newline>'',
     lit ''                \<newline>'',
     lit ''                // Inner semicircle (smaller radius)\<newline>'',
     lit ''                translate([width, height/2, 0])\<newline>'',
     lit ''                    cylinder(r = height/2 - ring_w, h = ring_h + 1, $fn = 60);\<newline>'',
     lit ''            }\<newline>'',
     lit ''    }\<newline>'',
     lit ''}\<newline>'',
     lit ''\<newline>'',
     lit ''// Generate the nametag\<newline>'',
     lit ''nametag();\<newline>'']"

definition scad_content :: "runtime \<Rightarrow> str \<Rightarrow> params \<Rightarrow> exn + str" where
  "scad_content rt name ps =
     (case param_lines rt ps TEMPLATE_KEYS
             (lit ''// Auto-generated nametag for: '' @ name @ NL @ NL @
              lit ''// Parameters'' @ NL @
              lit ''name = \"'' @ name @ lit ''\";'' @ NL) of
        Inl e \<Rightarrow> Inl e
      | Inr head \<Rightarrow> Inr (head @ SCAD_BODY))"

definition create_temp_scad ::
    "runtime \<Rightarrow> str \<Rightarrow> params \<Rightarrow> str \<Rightarrow> world \<Rightarrow> (exn + unit) \<times> world" where
  "create_temp_scad rt name ps temp_file w =
     (case scad_content rt name ps of
        Inl e \<Rightarrow> (Inl e, w)
      | Inr content \<Rightarrow> open_write temp_file content w)"

section \<open>sanitize_filename\<close>

definition sanitize_filename :: "runtime \<Rightarrow> str \<Rightarrow> str" where
  "sanitize_filename rt name =
     (let safe_name = concat (map (\<lambda>c. if isalnum rt c \<or> c \<in> set [SPACE, HYPHEN, UNDERSCORE]
                                        then [c] else lit ''_'') name);
          safe_name = py_replace (py_strip safe_name) (lit '' '') (lit ''_'')
      in safe_name)"

section \<open>generate_stl\<close>

definition CHECK_MARK :: nat where "CHECK_MARK = 10003"
definition BALLOT_X :: nat where "BALLOT_X = 10007"

definition temp_scad :: "runtime \<Rightarrow> str \<Rightarrow> str \<Rightarrow> str" where
  "temp_scad rt output_dir name =
     os_path_join output_dir (lit ''temp_'' @ sanitize_filename rt name @ lit ''.scad'')"

definition output_stl :: "runtime \<Rightarrow> str \<Rightarrow> str \<Rightarrow> str" where
  "output_stl rt output_dir name =
     os_path_join output_dir (sanitize_filename rt name @ lit ''.stl'')"

text \<open>
  The two handlers of the \<open>try\<close> block, in their order: \<open>TimeoutExpired\<close> first, then
  every other \<open>Exception\<close>. Both return \<open>False\<close>.
\<close>

fun except_handlers :: "exn \<Rightarrow> world \<Rightarrow> (exn + bool) \<times> world" where
  "except_handlers (TimeoutExpired m) w = (Inr False, print (BALLOT_X # lit '' Timeout'') NL w)"
| "except_handlers e w = (Inr False, print (BALLOT_X # lit '' Error: '' @ exn_str e) NL w)"

definition generate_stl ::
    "runtime \<Rightarrow> str \<Rightarrow> str \<Rightarrow> params \<Rightarrow> str \<Rightarrow> world \<Rightarrow> (exn + bool) \<times> world" where
  "generate_stl rt openscad_path name ps output_dir w =
     (case create_temp_scad rt name ps (temp_scad rt output_dir name) w of
        (Inl e, w1) \<Rightarrow> (Inl e, w1)
      | (Inr u, w1) \<Rightarrow>
          (case subprocess_run rt
                  [openscad_path, lit ''-o'', output_stl rt output_dir name, temp_scad rt output_dir name]
                  60 (print (lit ''Generating STL for: '' @ name @ lit ''...'') (lit '' '') w1) of
             (Inl e, w3) \<Rightarrow> except_handlers e w3
           | (Inr result, w3) \<Rightarrow>
               if returncode result = 0 \<and> os_path_exists (output_stl rt output_dir name) w3
               then
                 (case os_remove (temp_scad rt output_dir name)
                         (print (CHECK_MARK # lit '' Success'') NL w3) of
                    (Inl e, w5) \<Rightarrow> except_handlers e w5
                  | (Inr u, w5) \<Rightarrow> (Inr True, w5))
               else
                 (Inr False,
                  (if stderr result \<noteq> []
                   then print (lit ''  Error: '' @ stderr result) NL
                   else id) (print (BALLOT_X # lit '' Failed'') NL w3))))"

section \<open>read_csv\<close>

text \<open>
  A row as \<open>csv.DictReader\<close> yields it: a dictionary from column names to text, where a
  column the line is too short for holds \<open>None\<close>. \<open>row.get(key)\<close> is \<open>None\<close> for such a
  column and for a column the header does not have.
\<close>

type_synonym row = "str \<rightharpoonup> str option"

definition row_get :: "row \<Rightarrow> str \<Rightarrow> str option" where
  "row_get r k = (case r k of None \<Rightarrow> None | Some v \<Rightarrow> v)"

record request =
  req_name :: str
  req_params :: params

text \<open>The body of the loop over \<open>DEFAULT_PARAMS.keys()\<close>, for one key.\<close>

definition override_param :: "runtime \<Rightarrow> row \<Rightarrow> params \<Rightarrow> str \<Rightarrow> params" where
  "override_param rt r ps key =
     (case row_get r key of
        None \<Rightarrow> ps
      | Some raw_val \<Rightarrow>
          (let sval = py_strip raw_val in
           if sval = [] then ps
           else (case float_of_str rt sval of
                   Some x \<Rightarrow> ps(key \<mapsto> PyFloat x)
                 | None \<Rightarrow> ps)))"

definition resolve_params :: "runtime \<Rightarrow> row \<Rightarrow> params" where
  "resolve_params rt r = foldl (override_param rt r) DEFAULT_PARAMS DEFAULT_KEYS"

fun read_rows :: "runtime \<Rightarrow> row list \<Rightarrow> request list \<Rightarrow> request list" where
  "read_rows rt [] names_data = names_data"
| "read_rows rt (r # rs) names_data =
     (case row_get r (lit ''name'') of
        None \<Rightarrow> read_rows rt rs names_data
      | Some raw_name \<Rightarrow>
          if py_strip raw_name = [] then read_rows rt rs names_data
          else read_rows rt rs
                 (names_data @ [\<lparr>req_name = py_strip raw_name, req_params = resolve_params rt r\<rparr>]))"

text \<open>
  Opening, decoding and splitting the file is the library's work: the source is either the
  exception it raises, which leaves \<open>read_csv\<close> before anything is returned, or its rows.
\<close>

definition read_csv :: "runtime \<Rightarrow> exn + row list \<Rightarrow> exn + request list" where
  "read_csv rt source = (case source of Inl e \<Rightarrow> Inl e | Inr rows \<Rightarrow> Inr (read_rows rt rows []))"

section \<open>main: the generation loop and the summary\<close>

fun main_loop ::
    "runtime \<Rightarrow> str \<Rightarrow> nat \<Rightarrow> request list \<Rightarrow> nat \<Rightarrow> nat \<Rightarrow> nat \<Rightarrow> world
       \<Rightarrow> (exn + nat \<times> nat) \<times> world" where
  "main_loop rt openscad_path n_data [] i successful failed w = (Inr (successful, failed), w)"
| "main_loop rt openscad_path n_data (data # rest) i successful failed w =
     (case generate_stl rt openscad_path (req_name data) (req_params data) OUTPUT_DIR
             (print (lit ''['' @ str_int (int i) @ lit ''/'' @ str_int (int n_data) @ lit ''] '') [] w) of
        (Inl e, w1) \<Rightarrow> (Inl e, w1)
      | (Inr ok, w1) \<Rightarrow>
          if ok then main_loop rt openscad_path n_data rest (i + 1) (successful + 1) failed w1
          else main_loop rt openscad_path n_data rest (i + 1) successful (failed + 1) w1)"

definition summary :: "nat \<Rightarrow> nat \<Rightarrow> str \<Rightarrow> str" where
  "summary successful failed location =
     NL @
     replicate 60 61 @ NL @
     lit ''Generation Complete!'' @ NL @
     lit ''Successful: '' @ str_int (int successful) @ NL @
     lit ''Failed: '' @ str_int (int failed) @ NL @
     lit ''Output location: '' @ location @ NL @
     replicate 60 61 @ NL"

text \<open>Lines 276 to 294 of \<open>main\<close>: the loop over the requests, then the summary.\<close>

definition main_generate :: "runtime \<Rightarrow> str \<Rightarrow> request list \<Rightarrow> world \<Rightarrow> (exn + unit) \<times> world" where
  "main_generate rt openscad_path names_data w =
     (case main_loop rt openscad_path (length names_data) names_data 1 0 0 w of
        (Inl e, w1) \<Rightarrow> (Inl e, w1)
      | (Inr (successful, failed), w1) \<Rightarrow>
          (Inr (), print (summary successful failed (os_path_abspath OUTPUT_DIR w1)) [] w1))"

section \<open>The specification's wording, for comparison\<close>

text \<open>
  The three steps of the sanitisation as the specification words them: substitute every
  character that is not alphanumeric, space, hyphen or underscore; trim; turn the spaces
  that remain into underscores.
\<close>

definition spec_substitute :: "runtime \<Rightarrow> str \<Rightarrow> str" where
  "spec_substitute rt name =
     map (\<lambda>c. if isalnum rt c \<or> c = SPACE \<or> c = HYPHEN \<or> c = UNDERSCORE then c else UNDERSCORE) name"

definition spec_spaces_to_underscores :: "str \<Rightarrow> str" where
  "spec_spaces_to_underscores s = map (\<lambda>c. if c = SPACE then UNDERSCORE else c) s"

definition spec_sanitize :: "runtime \<Rightarrow> str \<Rightarrow> str" where
  "spec_sanitize rt name = spec_spaces_to_underscores (py_strip (spec_substitute rt name))"

text \<open>
  What a row supplies for a key, in the specification's words: a value that is present,
  not empty after trimming, and that parses as a floating-point number.
\<close>

definition supplied :: "runtime \<Rightarrow> row \<Rightarrow> str \<Rightarrow> 64 word option" where
  "supplied rt r key =
     (case row_get r key of
        None \<Rightarrow> None
      | Some raw_val \<Rightarrow> if py_strip raw_val = [] then None else float_of_str rt (py_strip raw_val))"

text \<open>A row whose name field is missing, or empty or whitespace only after trimming.\<close>

definition name_missing_or_blank :: "row \<Rightarrow> bool" where
  "name_missing_or_blank r =
     (case row_get r (lit ''name'') of None \<Rightarrow> True | Some raw_name \<Rightarrow> py_strip raw_name = [])"

text \<open>The request a row with a name yields.\<close>

definition row_request :: "runtime \<Rightarrow> row \<Rightarrow> request" where
  "row_request rt r =
     \<lparr>req_name = py_strip (the (row_get r (lit ''name''))), req_params = resolve_params rt r\<rparr>"

text \<open>
  The outcomes of one version query that the locator distinguishes: an exception it
  swallows, exit code zero, another exit code.
\<close>

fun swallowed :: "(exn + completed) \<Rightarrow> bool" where
  "swallowed (Inl (FileNotFoundError m)) = True"
| "swallowed (Inl (TimeoutExpired m)) = True"
| "swallowed (Inl (PermissionError m)) = True"
| "swallowed other = False"

fun exits_zero :: "(exn + completed) \<Rightarrow> bool" where
  "exits_zero (Inr result) = (returncode result = 0)"
| "exits_zero (Inl e) = False"

fun exits_nonzero :: "(exn + completed) \<Rightarrow> bool" where
  "exits_nonzero (Inr result) = (returncode result \<noteq> 0)"
| "exits_nonzero (Inl e) = False"

text \<open>The text of the template before the parameter lines.\<close>

definition scad_head :: "str \<Rightarrow> str" where
  "scad_head name =
     lit ''// Auto-generated nametag for: '' @ name @ NL @ NL @
     lit ''// Parameters'' @ NL @
     lit ''name = \"'' @ name @ lit ''\";'' @ NL"

section \<open>Sample data and test doubles\<close>

text \<open>
  A runtime to run the functions on sample data. Its \<open>float\<close> parses two numerals and
  refuses every other text; its process runner reads the script it is given and writes
  \<open>geometry script\<close> to the target of \<open>-o\<close>, and answers every other command line with
  exit code zero.
\<close>

definition sample_float :: "str \<Rightarrow> 64 word option" where
  "sample_float s =
     (if s = lit ''100'' then Some 0x4059000000000000
      else if s = lit ''80'' then Some 0x4054000000000000
      else None)"

definition sample_float_str :: "64 word \<Rightarrow> str" where
  "sample_float_str x =
     (if x = 0x4059000000000000 then lit ''100.0''
      else if x = 0x4054000000000000 then lit ''80.0''
      else if x = 0x3FF8000000000000 then lit ''1.5''
      else if x = 0x3FF3333333333333 then lit ''1.2''
      else lit ''nan'')"

definition fake_openscad :: "(str \<Rightarrow> str) \<Rightarrow> str list \<Rightarrow> nat \<Rightarrow> world \<Rightarrow> (exn + completed) \<times> world" where
  "fake_openscad geometry argv timeout w =
     (case argv of
        [exe, opt, out, script] \<Rightarrow>
          (case files w script of
             Some source \<Rightarrow>
               (Inr \<lparr>returncode = 0, stderr = []\<rparr>, w\<lparr>files := (files w)(out \<mapsto> geometry source)\<rparr>)
           | None \<Rightarrow> (Inr \<lparr>returncode = 1, stderr = lit ''Can't open input file''\<rparr>, w))
      | _ \<Rightarrow> (Inr \<lparr>returncode = 0, stderr = []\<rparr>, w))"

definition sample_runtime :: runtime where
  "sample_runtime =
     \<lparr>unicode_alnum = (\<lambda>c. False), float_of_str = sample_float,
      str_of_float = sample_float_str, subprocess_run = fake_openscad id\<rparr>"

definition sample_row :: row where
  "sample_row =
     [lit ''name'' \<mapsto> Some (lit '' Bob ''),
      lit ''text_size'' \<mapsto> Some (lit ''abc''),
      lit ''nametag_width'' \<mapsto> Some (lit '' 100''),
      lit ''ring_width'' \<mapsto> None]"

text \<open>
  A process runner for a machine where the tool is installed at \<open>home\<close> and nowhere else:
  every other command is not found.
\<close>

definition installed_at :: "str \<Rightarrow> str list \<Rightarrow> nat \<Rightarrow> world \<Rightarrow> (exn + completed) \<times> world" where
  "installed_at home argv timeout w =
     (if take 1 argv = [home] then (Inr \<lparr>returncode = 0, stderr = []\<rparr>, w)
      else (Inl (FileNotFoundError (lit ''[Errno 2] No such file or directory'')), w))"

definition empty_world :: world where
  "empty_world =
     \<lparr>files = Map.empty, console = [], cwd = lit ''/home/user'',
      write_fault = (\<lambda>p. None), remove_fault = (\<lambda>p. None)\<rparr>"

text \<open>
  Two worlds for the sample runs. In the first, files can be created but every unlink is
  refused (a sticky directory owned by someone else, a file held open on Windows). In the
  second, the file system refuses a name of more than 255 characters, as \<open>NAME_MAX\<close> does.
\<close>

definition sticky_world :: world where
  "sticky_world =
     empty_world\<lparr>remove_fault := (\<lambda>p. Some (PermissionError (lit ''[Errno 1] Operation not permitted'')))\<rparr>"

definition name_max_world :: world where
  "name_max_world =
     empty_world\<lparr>write_fault :=
       (\<lambda>p. if 255 < length (takeWhile (\<lambda>c. c \<noteq> 47) (rev p))
            then Some (OSError (lit ''[Errno 36] File name too long'')) else None)\<rparr>"

section \<open>Verified properties\<close>

subsection \<open>Strings\<close>

lemma py_replace_single: "py_replace s [a] [b] = map (\<lambda>c. if c = a then b else c) s"
  by (induction s) simp_all

lemma concat_map_choice:
  "concat (map (\<lambda>c. if P c then [c] else [u]) xs) = map (\<lambda>c. if P c then c else u) xs"
  by (induction xs) simp_all

lemma lit_underscore: "lit ''_'' = [UNDERSCORE]" and lit_space: "lit '' '' = [SPACE]"
  by (simp_all add: lit_def UNDERSCORE_def SPACE_def)

subsection \<open>sanitize_filename\<close>

lemma sanitize_filename_eq:
  "sanitize_filename rt name =
     map (\<lambda>c. if c = SPACE then UNDERSCORE else c)
       (py_strip (map (\<lambda>c. if isalnum rt c \<or> c = SPACE \<or> c = HYPHEN \<or> c = UNDERSCORE
                             then c else UNDERSCORE) name))"
  unfolding sanitize_filename_def Let_def lit_underscore lit_space
  by (simp add: py_replace_single concat_map_choice)

lemma sanitize_ascii:
  "sanitize_filename rt name =
     map (\<lambda>c. if c = 32 then 95 else c)
       (py_strip (map (\<lambda>c. if isalnum rt c \<or> c = 32 \<or> c = 45 \<or> c = 95 then c else 95) name))"
  unfolding sanitize_filename_eq SPACE_def UNDERSCORE_def HYPHEN_def ..

lemmas sanitize_eval =
  sanitize_ascii lit_def isalnum_def py_strip_def py_lstrip_def py_rstrip_def isspace_def

lemma sanitize_jane: "sanitize_filename rt (lit ''Jane O'Brien'') = lit ''Jane_O_Brien''"
  by (simp add: sanitize_eval)

lemma sanitize_A_slash_B: "sanitize_filename rt (lit ''A/B'') = lit ''A_B''"
  by (simp add: sanitize_eval)

lemma sanitize_A_space_B: "sanitize_filename rt (lit ''A B'') = lit ''A_B''"
  by (simp add: sanitize_eval)

text \<open>
  Claim C1. For every display name, the sanitised base name is the name with every character
  that is not alphanumeric, space, hyphen or underscore replaced by an underscore, then
  trimmed, then with every remaining space replaced by an underscore; the display name
  Jane O'Brien sanitises to Jane_O_Brien.
\<close>

theorem sanitize_filename_three_steps:
  "sanitize_filename rt name = spec_sanitize rt name \<and>
   sanitize_filename rt (lit ''Jane O'Brien'') = lit ''Jane_O_Brien''"
proof (intro conjI)
  show "sanitize_filename rt name = spec_sanitize rt name"
    by (simp add: sanitize_filename_eq spec_sanitize_def spec_substitute_def
        spec_spaces_to_underscores_def)
  show "sanitize_filename rt (lit ''Jane O'Brien'') = lit ''Jane_O_Brien''"
    by (rule sanitize_jane)
qed

subsection \<open>read_csv\<close>

lemma override_param_apply:
  "override_param rt r ps key k =
     (if k = key then (case supplied rt r key of Some x \<Rightarrow> Some (PyFloat x) | None \<Rightarrow> ps k) else ps k)"
  by (simp add: override_param_def supplied_def Let_def split: option.splits)

lemma foldl_override_apply:
  "foldl (override_param rt r) ps ks k =
     (if k \<in> set ks then (case supplied rt r k of Some x \<Rightarrow> Some (PyFloat x) | None \<Rightarrow> ps k) else ps k)"
  by (induction ks arbitrary: ps) (auto simp: override_param_apply split: option.splits)

lemma resolve_params_apply:
  "resolve_params rt r k =
     (if k \<in> set DEFAULT_KEYS
      then (case supplied rt r k of Some x \<Rightarrow> Some (PyFloat x) | None \<Rightarrow> DEFAULT_PARAMS k)
      else DEFAULT_PARAMS k)"
  by (simp add: resolve_params_def foldl_override_apply)

lemma dom_override_param: "key \<in> dom ps \<Longrightarrow> dom (override_param rt r ps key) = dom ps"
  by (auto simp: override_param_def Let_def split: option.splits if_splits)

lemma dom_foldl_override: "set ks \<subseteq> dom ps \<Longrightarrow> dom (foldl (override_param rt r) ps ks) = dom ps"
  by (induction ks arbitrary: ps) (simp_all add: dom_override_param)

lemma dom_DEFAULT_PARAMS: "dom DEFAULT_PARAMS = set DEFAULT_KEYS"
  by (simp add: DEFAULT_PARAMS_def DEFAULT_KEYS_def dom_map_of_conv_image_fst)

lemma dom_resolve_params: "dom (resolve_params rt r) = set DEFAULT_KEYS"
  by (simp add: resolve_params_def dom_foldl_override dom_DEFAULT_PARAMS)

lemma distinct_DEFAULT_KEYS: "distinct DEFAULT_KEYS \<and> length DEFAULT_KEYS = 9"
  by (simp add: DEFAULT_KEYS_def DEFAULT_ITEMS_def lit_def)

lemma read_rows_acc:
  "read_rows rt rs acc = acc @ map (row_request rt) (filter (\<lambda>r. \<not> name_missing_or_blank r) rs)"
  by (induction rs arbitrary: acc)
     (auto simp: name_missing_or_blank_def row_request_def split: option.splits)

lemma read_rows_eq:
  "read_rows rt rs [] = map (row_request rt) (filter (\<lambda>r. \<not> name_missing_or_blank r) rs)"
  by (simp add: read_rows_acc)

lemma sum_filter_lengths: "length (filter P xs) + length (filter (\<lambda>x. \<not> P x) xs) = length xs"
  by (induction xs) simp_all

lemma strip_Bob: "py_strip (lit '' Bob '') = lit ''Bob''"
  by (simp add: lit_def py_strip_def py_lstrip_def py_rstrip_def isspace_def)

lemma sample_row_get:
  "row_get sample_row (lit ''name'') = Some (lit '' Bob '')"
  "row_get sample_row (lit ''text_size'') = Some (lit ''abc'')"
  "row_get sample_row (lit ''nametag_width'') = Some (lit '' 100'')"
  "row_get sample_row (lit ''ring_width'') = None"
  by (simp_all add: row_get_def sample_row_def lit_def)

lemma resolve_params_no_columns:
  assumes "\<forall>k \<in> set DEFAULT_KEYS. row_get r k = None"
  shows "resolve_params rt r = DEFAULT_PARAMS"
proof
  fix k show "resolve_params rt r k = DEFAULT_PARAMS k"
    using assms by (simp add: resolve_params_apply supplied_def)
qed

text \<open>
  Claim C2. For every row that has a name and every one of the nine parameter keys, the
  reader overrides the default with the row's value exactly when the value is present, not
  empty after trimming, and parses as a floating-point number; when it is missing, empty or
  unparsable the default is kept for that key, and the row is emitted all the same, between
  the requests of the rows before and after it.
\<close>

theorem read_csv_override_iff_numeric:
  assumes "row_get r (lit ''name'') = Some raw_name" and "py_strip raw_name \<noteq> []"
    and "key \<in> set DEFAULT_KEYS"
  shows "read_csv rt (Inr (before @ r # after)) =
           Inr (read_rows rt before [] @
                \<lparr>req_name = py_strip raw_name, req_params = resolve_params rt r\<rparr> #
                read_rows rt after []) \<and>
         (\<forall>raw x. row_get r key = Some raw \<and> py_strip raw \<noteq> [] \<and>
                  float_of_str rt (py_strip raw) = Some x \<longrightarrow>
                  resolve_params rt r key = Some (PyFloat x)) \<and>
         ((row_get r key = None \<or>
           (\<exists>raw. row_get r key = Some raw \<and>
                  (py_strip raw = [] \<or> float_of_str rt (py_strip raw) = None))) \<longrightarrow>
          resolve_params rt r key = DEFAULT_PARAMS key) \<and>
         DEFAULT_PARAMS key \<noteq> None"
proof (intro conjI)
  have nb: "\<not> name_missing_or_blank r"
    using assms(1,2) by (simp add: name_missing_or_blank_def)
  have rq: "row_request rt r = \<lparr>req_name = py_strip raw_name, req_params = resolve_params rt r\<rparr>"
    using assms(1) by (simp add: row_request_def)
  show "read_csv rt (Inr (before @ r # after)) =
           Inr (read_rows rt before [] @
                \<lparr>req_name = py_strip raw_name, req_params = resolve_params rt r\<rparr> #
                read_rows rt after [])"
    using nb rq by (simp add: read_csv_def read_rows_eq)
  show "\<forall>raw x. row_get r key = Some raw \<and> py_strip raw \<noteq> [] \<and>
                  float_of_str rt (py_strip raw) = Some x \<longrightarrow>
                  resolve_params rt r key = Some (PyFloat x)"
    using assms(3) by (simp add: resolve_params_apply supplied_def)
  show "(row_get r key = None \<or>
           (\<exists>raw. row_get r key = Some raw \<and>
                  (py_strip raw = [] \<or> float_of_str rt (py_strip raw) = None))) \<longrightarrow>
          resolve_params rt r key = DEFAULT_PARAMS key"
    using assms(3) by (auto simp: resolve_params_apply supplied_def)
  show "DEFAULT_PARAMS key \<noteq> None"
    using assms(3) dom_DEFAULT_PARAMS by blast
qed

theorem read_csv_override_iff_numeric_witness:
  "resolve_params sample_runtime sample_row (lit ''text_size'') = Some (PyInt 8) \<and>
   resolve_params sample_runtime sample_row (lit ''nametag_width'') = Some (PyFloat 0x4059000000000000) \<and>
   read_csv sample_runtime (Inr [sample_row]) =
     Inr [\<lparr>req_name = lit ''Bob'', req_params = resolve_params sample_runtime sample_row\<rparr>]"
proof -
  have n: "py_strip (lit '' Bob '') \<noteq> []"
    unfolding strip_Bob by (simp add: lit_def)
  have k1: "lit ''text_size'' \<in> set DEFAULT_KEYS" and k2: "lit ''nametag_width'' \<in> set DEFAULT_KEYS"
    by (simp_all add: DEFAULT_KEYS_def DEFAULT_ITEMS_def)
  have s1: "py_strip (lit ''abc'') = lit ''abc''" and s2: "py_strip (lit '' 100'') = lit ''100''"
    by (simp_all add: lit_def py_strip_def py_lstrip_def py_rstrip_def isspace_def)
  have f1: "float_of_str sample_runtime (lit ''abc'') = None"
    and f2: "float_of_str sample_runtime (lit ''100'') = Some 0x4059000000000000"
    by (simp_all add: sample_runtime_def sample_float_def lit_def)
  have d: "DEFAULT_PARAMS (lit ''text_size'') = Some (PyInt 8)"
    by (simp add: DEFAULT_PARAMS_def DEFAULT_ITEMS_def lit_def)
  from read_csv_override_iff_numeric [OF sample_row_get(1) n k1, of sample_runtime "[]" "[]"]
  have a: "resolve_params sample_runtime sample_row (lit ''text_size'') = Some (PyInt 8)"
    and c: "read_csv sample_runtime (Inr [sample_row]) =
     Inr [\<lparr>req_name = lit ''Bob'', req_params = resolve_params sample_runtime sample_row\<rparr>]"
    using sample_row_get(2) s1 f1 d strip_Bob by (auto simp: lit_def)
  from read_csv_override_iff_numeric [OF sample_row_get(1) n k2, of sample_runtime "[]" "[]"]
  have b: "resolve_params sample_runtime sample_row (lit ''nametag_width'') = Some (PyFloat 0x4059000000000000)"
    using sample_row_get(3) s2 f2 by (auto simp: lit_def)
  from a b c show ?thesis by simp
qed

text \<open>
  Claim C5. Rows whose name field is missing, or empty or whitespace only after trimming, are
  left out without an error: the result has as many requests as there are rows minus the
  number of such rows, and the requests are those of the remaining rows, in row order.
\<close>

theorem read_csv_skips_nameless_rows:
  "read_csv rt (Inr rows) = Inr (read_rows rt rows []) \<and>
   length (read_rows rt rows []) = length rows - length (filter name_missing_or_blank rows) \<and>
   read_rows rt rows [] = map (row_request rt) (filter (\<lambda>r. \<not> name_missing_or_blank r) rows)"
proof -
  have "length (filter (\<lambda>r. \<not> name_missing_or_blank r) rows) =
        length rows - length (filter name_missing_or_blank rows)"
    using sum_filter_lengths [of name_missing_or_blank rows] by simp
  then show ?thesis
    by (simp add: read_csv_def read_rows_eq)
qed

text \<open>
  Claim C4 says that every key is present and that every value, default or override, is a
  floating-point value. Every key is present, and every override is a float:
\<close>

lemma resolve_params_all_keys:
  "dom (resolve_params rt r) = set DEFAULT_KEYS \<and> distinct DEFAULT_KEYS \<and> length DEFAULT_KEYS = 9"
  by (simp add: dom_resolve_params distinct_DEFAULT_KEYS)

lemma resolve_params_value:
  "resolve_params rt r k = Some v \<Longrightarrow> (\<exists>x. v = PyFloat x) \<or> DEFAULT_PARAMS k = Some v"
  by (auto simp: resolve_params_apply split: if_splits option.splits)

text \<open>
  Claim C4, at a row that has a name and no parameter column: the request carries the
  defaults themselves, and the default panel width is the integer 80, which the template
  renders as 80, where the override 80 would be the float 80.0.
\<close>

theorem read_csv_default_is_int:
  "read_csv rt (Inr [[lit ''name'' \<mapsto> Some (lit ''Bob'')]]) =
     Inr [\<lparr>req_name = lit ''Bob'', req_params = DEFAULT_PARAMS\<rparr>] \<and>
   DEFAULT_PARAMS (lit ''nametag_width'') = Some (PyInt 80) \<and>
   format_num rt (PyInt 80) = lit ''80''"
proof (intro conjI)
  let ?r = "[lit ''name'' \<mapsto> Some (lit ''Bob'')]"
  have "\<forall>k \<in> set DEFAULT_KEYS. row_get ?r k = None"
    by (simp add: DEFAULT_KEYS_def DEFAULT_ITEMS_def row_get_def lit_def)
  then have "resolve_params rt ?r = DEFAULT_PARAMS"
    by (rule resolve_params_no_columns)
  moreover have "row_get ?r (lit ''name'') = Some (lit ''Bob'')"
    by (simp add: row_get_def)
  moreover have "py_strip (lit ''Bob'') = lit ''Bob''"
    by (simp add: lit_def py_strip_def py_lstrip_def py_rstrip_def isspace_def)
  moreover have "lit ''Bob'' \<noteq> []" by (simp add: lit_def)
  ultimately show "read_csv rt (Inr [?r]) = Inr [\<lparr>req_name = lit ''Bob'', req_params = DEFAULT_PARAMS\<rparr>]"
    by (simp add: read_csv_def)
  show "DEFAULT_PARAMS (lit ''nametag_width'') = Some (PyInt 80)"
    by (simp add: DEFAULT_PARAMS_def DEFAULT_ITEMS_def)
  show "format_num rt (PyInt 80) = lit ''80''"
    by (simp add: format_num_def str_int_def digits.simps lit_def)
qed

subsection \<open>find_openscad\<close>

lemma find_loop_step:
  assumes "fst (subprocess_run rt [p, lit ''--version''] 5 w) = out"
  shows "exits_zero out \<Longrightarrow> fst (find_loop rt (p # ps) w) = Inr (Some p)"
    and "swallowed out \<or> exits_nonzero out \<Longrightarrow>
         find_loop rt (p # ps) w = find_loop rt ps (snd (subprocess_run rt [p, lit ''--version''] 5 w))"
    and "\<not> exits_zero out \<Longrightarrow> \<not> swallowed out \<Longrightarrow> \<not> exits_nonzero out \<Longrightarrow>
         \<exists>e. fst (find_loop rt (p # ps) w) = Inl e"
  using assms
  by (cases "subprocess_run rt [p, lit ''--version''] 5 w"; cases out; auto split: exn.splits)+

declare find_loop.simps(2) [simp del]

lemma find_loop_first:
  assumes "\<forall>p w. fst (subprocess_run rt [p, lit ''--version''] 5 w) = probe p"
    and "\<forall>p \<in> set (takeWhile (\<lambda>p. \<not> exits_zero (probe p)) ps). swallowed (probe p) \<or> exits_nonzero (probe p)"
  shows "fst (find_loop rt ps w) = Inr (List.find (\<lambda>p. exits_zero (probe p)) ps)"
  using assms(2)
proof (induction ps arbitrary: w)
  case Nil
  then show ?case by simp
next
  case (Cons p ps)
  have out: "fst (subprocess_run rt [p, lit ''--version''] 5 w) = probe p"
    using assms(1) by simp
  show ?case
  proof (cases "exits_zero (probe p)")
    case True
    then show ?thesis using find_loop_step(1) [OF out] by simp
  next
    case False
    with Cons.prems have sk: "swallowed (probe p) \<or> exits_nonzero (probe p)"
      and rest: "\<forall>q \<in> set (takeWhile (\<lambda>p. \<not> exits_zero (probe p)) ps). swallowed (probe q) \<or> exits_nonzero (probe q)"
      by simp_all
    show ?thesis
      using False find_loop_step(2) [OF out sk] Cons.IH [OF rest] by simp
  qed
qed

lemma find_loop_None:
  assumes "\<forall>p w. fst (subprocess_run rt [p, lit ''--version''] 5 w) = probe p"
    and "fst (find_loop rt ps w) = Inr None"
  shows "\<forall>p \<in> set ps. swallowed (probe p) \<or> exits_nonzero (probe p)"
  using assms(2)
proof (induction ps arbitrary: w)
  case Nil
  then show ?case by simp
next
  case (Cons p ps)
  have out: "fst (subprocess_run rt [p, lit ''--version''] 5 w) = probe p"
    using assms(1) by simp
  have nz: "\<not> exits_zero (probe p)"
    using find_loop_step(1) [OF out] Cons.prems by auto
  have sk: "swallowed (probe p) \<or> exits_nonzero (probe p)"
  proof (rule ccontr)
    assume "\<not> (swallowed (probe p) \<or> exits_nonzero (probe p))"
    then obtain e where "fst (find_loop rt (p # ps) w) = Inl e"
      using find_loop_step(3) [OF out nz] by blast
    with Cons.prems show False by simp
  qed
  from find_loop_step(2) [OF out sk] Cons.prems Cons.IH sk show ?case by simp
qed

text \<open>
  Claim C7. Where the answer to a version query depends on the candidate only: if every
  candidate before the first one that exits with code zero is not found, times out, is denied
  or exits with another code, the locator returns that first candidate (and \<open>None\<close> when
  there is none); and it returns \<open>None\<close> only when every candidate of the list was probed
  and skipped.
\<close>

theorem find_openscad_first_match:
  assumes "\<forall>p w. fst (subprocess_run rt [p, lit ''--version''] 5 w) = probe p"
  shows "((\<forall>p \<in> set (takeWhile (\<lambda>p. \<not> exits_zero (probe p)) possible_paths).
             swallowed (probe p) \<or> exits_nonzero (probe p)) \<longrightarrow>
          fst (find_openscad rt w) = Inr (List.find (\<lambda>p. exits_zero (probe p)) possible_paths)) \<and>
         (fst (find_openscad rt w) = Inr None \<longrightarrow>
          (\<forall>p \<in> set possible_paths. swallowed (probe p) \<or> exits_nonzero (probe p)))"
  unfolding find_openscad_def
  using find_loop_first [OF assms] find_loop_None [OF assms] by blast

theorem find_openscad_first_match_witness:
  "fst (find_openscad (sample_runtime\<lparr>subprocess_run := installed_at (lit ''/usr/local/bin/openscad'')\<rparr>)
          empty_world) = Inr (Some (lit ''/usr/local/bin/openscad''))"
proof -
  let ?rt = "sample_runtime\<lparr>subprocess_run := installed_at (lit ''/usr/local/bin/openscad'')\<rparr>"
  let ?probe = "\<lambda>p. fst (installed_at (lit ''/usr/local/bin/openscad'') [p, lit ''--version''] 5 empty_world)"
  have h: "\<forall>p w. fst (subprocess_run ?rt [p, lit ''--version''] 5 w) = ?probe p"
    by (simp add: installed_at_def)
  have pre: "\<forall>p \<in> set (takeWhile (\<lambda>p. \<not> exits_zero (?probe p)) possible_paths).
               swallowed (?probe p) \<or> exits_nonzero (?probe p)"
    by (simp add: possible_paths_def installed_at_def lit_def)
  have found: "List.find (\<lambda>p. exits_zero (?probe p)) possible_paths = Some (lit ''/usr/local/bin/openscad'')"
    by (simp add: possible_paths_def installed_at_def lit_def)
  from find_openscad_first_match [OF h, of empty_world] pre found show ?thesis
    by simp
qed

subsection \<open>generate_stl\<close>

lemma print_fields [simp]:
  "files (print s e w) = files w"
  "write_fault (print s e w) = write_fault w"
  "remove_fault (print s e w) = remove_fault w"
  "cwd (print s e w) = cwd w"
  "console (print s e w) = console w @ s @ e"
  by (simp_all add: print_def)

lemma except_handlers_fst [simp]: "fst (except_handlers e w) = Inr False"
  by (cases e) simp_all

lemma except_handlers_fields [simp]:
  "files (snd (except_handlers e w)) = files w"
  "write_fault (snd (except_handlers e w)) = write_fault w"
  "remove_fault (snd (except_handlers e w)) = remove_fault w"
  by (cases e; simp)+

lemma except_handlers_timeout:
  "except_handlers (TimeoutExpired m) w = (Inr False, print (BALLOT_X # lit '' Timeout'') NL w)"
  by simp

lemma os_remove_cases:
  "os_remove p w =
     (if remove_fault w p = None \<and> files w p \<noteq> None
      then (Inr (), w\<lparr>files := (files w)(p := None)\<rparr>)
      else (Inl (case remove_fault w p of
                   Some e \<Rightarrow> e
                 | None \<Rightarrow> FileNotFoundError
                             (lit ''[Errno 2] No such file or directory: '' @ [39] @ p @ [39])), w))"
  by (auto simp: os_remove_def split: option.splits)

lemma create_temp_scad_cases:
  "create_temp_scad rt name ps f w =
     (case scad_content rt name ps of
        Inl e \<Rightarrow> (Inl e, w)
      | Inr c \<Rightarrow> (case write_fault w f of
                    Some e \<Rightarrow> (Inl e, w)
                  | None \<Rightarrow> (Inr (), w\<lparr>files := (files w)(f \<mapsto> c)\<rparr>)))"
  by (simp add: create_temp_scad_def open_write_def split: sum.splits)

lemma generate_stl_raises:
  "create_temp_scad rt name ps (temp_scad rt dir name) w = (Inl e, w1) \<Longrightarrow>
   generate_stl rt path name ps dir w = (Inl e, w1)"
  by (simp add: generate_stl_def)

lemma generate_stl_run:
  assumes "create_temp_scad rt name ps (temp_scad rt dir name) w = (Inr (), w1)"
    and "subprocess_run rt [path, lit ''-o'', output_stl rt dir name, temp_scad rt dir name] 60
           (print (lit ''Generating STL for: '' @ name @ lit ''...'') (lit '' '') w1) = (res, w3)"
  shows "generate_stl rt path name ps dir w =
     (case res of
        Inl e \<Rightarrow> except_handlers e w3
      | Inr result \<Rightarrow>
          if returncode result = 0 \<and> os_path_exists (output_stl rt dir name) w3
          then (case os_remove (temp_scad rt dir name) (print (CHECK_MARK # lit '' Success'') NL w3) of
                  (Inl e, w5) \<Rightarrow> except_handlers e w5
                | (Inr u, w5) \<Rightarrow> (Inr True, w5))
          else (Inr False,
                (if stderr result \<noteq> [] then print (lit ''  Error: '' @ stderr result) NL else id)
                  (print (BALLOT_X # lit '' Failed'') NL w3)))"
  using assms by (simp add: generate_stl_def split: sum.splits)

subsection \<open>Rendering and running on the test double\<close>

lemma param_lines_total:
  "set ks \<subseteq> dom ps \<Longrightarrow> \<exists>t. param_lines rt ps ks acc = Inr (acc @ t)"
proof (induction ks arbitrary: acc)
  case Nil
  then show ?case by simp
next
  case (Cons k ks)
  then obtain v where v: "ps k = Some v" by auto
  from Cons.prems have "set ks \<subseteq> dom ps" by simp
  from Cons.IH [OF this, of "acc @ k @ lit '' = '' @ format_num rt v @ lit '';'' @ NL"]
  show ?case using v by (auto simp: getitem_def)
qed

lemma param_lines_prefix:
  "param_lines rt ps ks acc = Inr r \<Longrightarrow> \<exists>t. r = acc @ t"
proof (induction ks arbitrary: acc)
  case Nil
  then show ?case by simp
next
  case (Cons k ks)
  then show ?case
    by (fastforce simp: getitem_def split: option.splits sum.splits)
qed

lemma TEMPLATE_KEYS_eq: "TEMPLATE_KEYS = DEFAULT_KEYS"
  by (simp add: TEMPLATE_KEYS_def DEFAULT_KEYS_def DEFAULT_ITEMS_def)

lemma scad_content_alt:
  "scad_content rt name ps =
     (case param_lines rt ps TEMPLATE_KEYS (scad_head name) of
        Inl e \<Rightarrow> Inl e
      | Inr head \<Rightarrow> Inr (head @ SCAD_BODY))"
  by (simp add: scad_content_def scad_head_def)

lemma scad_content_total:
  assumes "set DEFAULT_KEYS \<subseteq> dom ps"
  shows "\<exists>c. scad_content rt name ps = Inr c"
proof -
  from assms have "set TEMPLATE_KEYS \<subseteq> dom ps" by (simp add: TEMPLATE_KEYS_eq)
  from param_lines_total [OF this]
  obtain t where "param_lines rt ps TEMPLATE_KEYS (scad_head name) = Inr (scad_head name @ t)"
    by blast
  then show ?thesis by (simp add: scad_content_alt)
qed

lemma scad_content_starts:
  assumes "scad_content rt name ps = Inr c"
  shows "\<exists>t. c = lit ''// Auto-generated nametag for: '' @ name @ NL @ t"
proof (cases "param_lines rt ps TEMPLATE_KEYS (scad_head name)")
  case (Inl e)
  with assms show ?thesis by (simp add: scad_content_alt)
next
  case (Inr h)
  from param_lines_prefix [OF Inr] obtain t where "h = scad_head name @ t" by blast
  with assms Inr have "c = scad_head name @ t @ SCAD_BODY" by (simp add: scad_content_alt)
  then show ?thesis unfolding scad_head_def by simp
qed

lemma last_os_path_join: "b \<noteq> [] \<Longrightarrow> last (os_path_join a b) = last b"
  by (simp add: os_path_join_def lit_def)

lemma temp_scad_neq_output_stl: "temp_scad rt dir name \<noteq> output_stl rt dir name"
proof
  assume "temp_scad rt dir name = output_stl rt dir name"
  then have "last (temp_scad rt dir name) = last (output_stl rt dir name)" by simp
  then show False
    by (simp add: temp_scad_def output_stl_def last_os_path_join lit_def)
qed


lemma fake_openscad_generate:
  "files w script = Some source \<Longrightarrow>
   fake_openscad geometry [exe, opt, out, script] t w =
     (Inr \<lparr>returncode = 0, stderr = []\<rparr>, w\<lparr>files := (files w)(out \<mapsto> geometry source)\<rparr>)"
  by (simp add: fake_openscad_def)

lemma generate_stl_fake:
  assumes "subprocess_run rt = fake_openscad geometry"
    and "scad_content rt name ps = Inr c"
    and "write_fault w (temp_scad rt dir name) = None"
  shows "fst (generate_stl rt path name ps dir w) = Inr (remove_fault w (temp_scad rt dir name) = None)"
    and "files (snd (generate_stl rt path name ps dir w)) =
           (if remove_fault w (temp_scad rt dir name) = None
            then (files w)(temp_scad rt dir name := None, output_stl rt dir name \<mapsto> geometry c)
            else (files w)(temp_scad rt dir name \<mapsto> c, output_stl rt dir name \<mapsto> geometry c))"
    and "write_fault (snd (generate_stl rt path name ps dir w)) = write_fault w"
    and "remove_fault (snd (generate_stl rt path name ps dir w)) = remove_fault w"
proof -
  let ?T = "temp_scad rt dir name" and ?O = "output_stl rt dir name"
  let ?w1 = "w\<lparr>files := (files w)(?T \<mapsto> c)\<rparr>"
  let ?w2 = "print (lit ''Generating STL for: '' @ name @ lit ''...'') (lit '' '') ?w1"
  let ?w3 = "?w2\<lparr>files := (files ?w2)(?O \<mapsto> geometry c)\<rparr>"
  have neq: "?T \<noteq> ?O" by (rule temp_scad_neq_output_stl)
  have a: "create_temp_scad rt name ps ?T w = (Inr (), ?w1)"
    using assms(2,3) by (simp add: create_temp_scad_cases)
  have b: "subprocess_run rt [path, lit ''-o'', ?O, ?T] 60 ?w2 = (Inr \<lparr>returncode = 0, stderr = []\<rparr>, ?w3)"
    unfolding assms(1) by (rule fake_openscad_generate) simp
  have upd: "(files w)(?T \<mapsto> c, ?O \<mapsto> geometry c, ?T := None) = (files w)(?T := None, ?O \<mapsto> geometry c)"
    using neq by (auto simp: fun_eq_iff)
  have g: "generate_stl rt path name ps dir w =
        (case os_remove ?T (print (CHECK_MARK # lit '' Success'') NL ?w3) of
           (Inl e, w5) \<Rightarrow> except_handlers e w5
         | (Inr u, w5) \<Rightarrow> (Inr True, w5))"
    by (simp add: generate_stl_run [OF a b] os_path_exists_def)
  show "fst (generate_stl rt path name ps dir w) = Inr (remove_fault w ?T = None)"
    using neq by (simp add: g os_remove_cases)
  show "files (snd (generate_stl rt path name ps dir w)) =
           (if remove_fault w ?T = None
            then (files w)(?T := None, ?O \<mapsto> geometry c)
            else (files w)(?T \<mapsto> c, ?O \<mapsto> geometry c))"
    using neq upd by (simp add: g os_remove_cases)
  show "write_fault (snd (generate_stl rt path name ps dir w)) = write_fault w"
    using neq by (simp add: g os_remove_cases)
  show "remove_fault (snd (generate_stl rt path name ps dir w)) = remove_fault w"
    using neq by (simp add: g os_remove_cases)
qed

lemma dom_DEFAULT_PARAMS_keys: "set DEFAULT_KEYS \<subseteq> dom DEFAULT_PARAMS"
  by (simp add: dom_DEFAULT_PARAMS)

subsection \<open>create_temp_scad\<close>

text \<open>
  Claim C9. Rendering the same name and parameters twice writes the same content, whatever
  the state of the world and the path: the content is \<open>scad_content\<close> of the two inputs,
  and rendering again over the result changes nothing.
\<close>

theorem create_temp_scad_deterministic:
  assumes "create_temp_scad rt name ps f1 w1 = (Inr (), w1')"
    and "create_temp_scad rt name ps f2 w2 = (Inr (), w2')"
  shows "(\<exists>c. scad_content rt name ps = Inr c \<and> files w1' f1 = Some c \<and> files w2' f2 = Some c) \<and>
         create_temp_scad rt name ps f1 w1' = (Inr (), w1')"
proof (cases "scad_content rt name ps")
  case (Inl e)
  with assms(1) show ?thesis by (simp add: create_temp_scad_cases)
next
  case (Inr c)
  from assms(1) Inr have 1: "write_fault w1 f1 = None" "w1' = w1\<lparr>files := (files w1)(f1 \<mapsto> c)\<rparr>"
    by (auto simp: create_temp_scad_cases split: option.splits)
  from assms(2) Inr have 2: "write_fault w2 f2 = None" "w2' = w2\<lparr>files := (files w2)(f2 \<mapsto> c)\<rparr>"
    by (auto simp: create_temp_scad_cases split: option.splits)
  from 1 2 Inr show ?thesis
    by (simp add: create_temp_scad_cases)
qed

subsection \<open>main\<close>

lemma main_loop_Cons:
  "main_loop rt path n (d # rest) i s f w =
     (let g = generate_stl rt path (req_name d) (req_params d) OUTPUT_DIR
                (print (lit ''['' @ str_int (int i) @ lit ''/'' @ str_int (int n) @ lit ''] '') [] w)
      in case fst g of
           Inl e \<Rightarrow> (Inl e, snd g)
         | Inr ok \<Rightarrow>
             if ok then main_loop rt path n rest (i + 1) (s + 1) f (snd g)
             else main_loop rt path n rest (i + 1) s (f + 1) (snd g))"
  by (simp add: Let_def split: prod.splits sum.splits)

lemma paths_A_B:
  "sanitize_filename rt name = lit ''A_B'' \<Longrightarrow>
   temp_scad rt OUTPUT_DIR name = lit ''generated_nametags/temp_A_B.scad'' \<and>
   output_stl rt OUTPUT_DIR name = lit ''generated_nametags/A_B.stl''"
  by (simp add: temp_scad_def output_stl_def OUTPUT_DIR_def os_path_join_def lit_def)

lemma paths_Bob:
  "temp_scad rt OUTPUT_DIR (lit ''Bob'') = lit ''generated_nametags/temp_Bob.scad'' \<and>
   output_stl rt OUTPUT_DIR (lit ''Bob'') = lit ''generated_nametags/Bob.stl''"
  by (simp add: temp_scad_def output_stl_def OUTPUT_DIR_def os_path_join_def sanitize_eval)

lemma sanitize_replicate_a: "sanitize_filename rt (replicate n 97) = replicate n 97"
  by (simp add: sanitize_ascii isalnum_def py_strip_def py_lstrip_def py_rstrip_def isspace_def)

lemma temp_scad_long:
  "temp_scad rt OUTPUT_DIR (replicate n 97) =
     lit ''generated_nametags/'' @ lit ''temp_'' @ replicate n 97 @ lit ''.scad''"
  by (simp add: temp_scad_def OUTPUT_DIR_def os_path_join_def sanitize_replicate_a lit_def)

lemma takeWhile_replicate_append:
  "P x \<Longrightarrow> takeWhile P (replicate n x @ ys) = replicate n x @ takeWhile P ys"
  by (induction n) simp_all

lemma write_fault_long:
  "write_fault name_max_world (temp_scad rt OUTPUT_DIR (replicate 300 97)) =
     Some (OSError (lit ''[Errno 36] File name too long''))"
  by (simp add: temp_scad_long name_max_world_def lit_def takeWhile_replicate_append)

lemma write_fault_Bob:
  "write_fault name_max_world (lit ''generated_nametags/temp_Bob.scad'') = None"
  by (simp add: name_max_world_def lit_def)


lemma scad_content_DEFAULT: "\<exists>c. scad_content rt name DEFAULT_PARAMS = Inr c"
  by (rule scad_content_total) (simp add: dom_DEFAULT_PARAMS)

lemma main_loop_counts:
  "main_loop rt path n reqs i s f w = (Inr (s', f'), w') \<Longrightarrow> s' + f' = s + f + length reqs"
proof (induction reqs arbitrary: i s f w)
  case Nil
  then show ?case by simp
next
  case (Cons d reqs)
  let ?g = "generate_stl rt path (req_name d) (req_params d) OUTPUT_DIR
             (print (lit ''['' @ str_int (int i) @ lit ''/'' @ str_int (int n) @ lit ''] '') [] w)"
  obtain r w1 where g: "?g = (r, w1)" by (cases ?g)
  show ?case
  proof (cases r)
    case (Inl e)
    with Cons.prems g show ?thesis by simp
  next
    case (Inr ok)
    show ?thesis
    proof (cases ok)
      case True
      with Cons.prems g Inr have "main_loop rt path n reqs (i + 1) (s + 1) f w1 = (Inr (s', f'), w')"
        by simp
      from Cons.IH [OF this] show ?thesis by simp
    next
      case False
      with Cons.prems g Inr have "main_loop rt path n reqs (i + 1) s (f + 1) w1 = (Inr (s', f'), w')"
        by simp
      from Cons.IH [OF this] show ?thesis by simp
    qed
  qed
qed

text \<open>
  Claim C10. When the loop has run to its end, the success counter plus the failure counter
  is the number of requests, and the summary prints these two counters and no other.
\<close>

theorem main_counters_sum:
  assumes "main_generate rt path reqs w = (Inr (), w')"
  shows "\<exists>successful failed w1.
           main_loop rt path (length reqs) reqs 1 0 0 w = (Inr (successful, failed), w1) \<and>
           successful + failed = length reqs \<and>
           console w' = console w1 @ summary successful failed (os_path_abspath OUTPUT_DIR w1) \<and>
           summary successful failed (os_path_abspath OUTPUT_DIR w1) =
             NL @ replicate 60 61 @ NL @
             lit ''Generation Complete!'' @ NL @
             lit ''Successful: '' @ str_int (int successful) @ NL @
             lit ''Failed: '' @ str_int (int failed) @ NL @
             lit ''Output location: '' @ os_path_abspath OUTPUT_DIR w1 @ NL @
             replicate 60 61 @ NL"
proof -
  obtain r w1 where l: "main_loop rt path (length reqs) reqs 1 0 0 w = (r, w1)"
    by (cases "main_loop rt path (length reqs) reqs 1 0 0 w")
  show ?thesis
  proof (cases r)
    case (Inl e)
    with assms l show ?thesis by (simp add: main_generate_def)
  next
    case (Inr sf)
    obtain s f where sf: "sf = (s, f)" by (cases sf)
    from main_loop_counts [of rt path "length reqs" reqs 1 0 0 w s f w1] l Inr sf
    have "s + f = length reqs" by simp
    moreover from assms l Inr sf have "w' = print (summary s f (os_path_abspath OUTPUT_DIR w1)) [] w1"
      by (simp add: main_generate_def)
    ultimately show ?thesis
      using l Inr sf by (simp add: summary_def)
  qed
qed

text \<open>
  Claim C6 holds for a timeout and for every exception inside the \<open>try\<close> block: the
  outcome is \<open>False\<close>, the marker printed is Timeout, and the loop goes on.
\<close>

lemma generate_stl_timeout:
  assumes "create_temp_scad rt name ps (temp_scad rt dir name) w = (Inr (), w1)"
    and "subprocess_run rt [path, lit ''-o'', output_stl rt dir name, temp_scad rt dir name] 60
           (print (lit ''Generating STL for: '' @ name @ lit ''...'') (lit '' '') w1)
         = (Inl (TimeoutExpired m), w3)"
  shows "generate_stl rt path name ps dir w = (Inr False, print (BALLOT_X # lit '' Timeout'') NL w3)"
  by (simp add: generate_stl_run [OF assms])

lemma main_loop_after_failure:
  assumes "fst (generate_stl rt path (req_name d) (req_params d) OUTPUT_DIR
                  (print (lit ''['' @ str_int (int i) @ lit ''/'' @ str_int (int n) @ lit ''] '') [] w))
           = Inr False"
  shows "main_loop rt path n (d # rest) i s f w =
           main_loop rt path n rest (i + 1) s (f + 1)
             (snd (generate_stl rt path (req_name d) (req_params d) OUTPUT_DIR
                  (print (lit ''['' @ str_int (int i) @ lit ''/'' @ str_int (int n) @ lit ''] '') [] w)))"
  using assms by (simp add: main_loop_Cons del: main_loop.simps(2))

text \<open>
  Claim C6, at a request whose temporary script cannot be written: the name is 300
  characters long, \<open>open\<close> raises before the \<open>try\<close> block, the exception leaves
  \<open>generate_stl\<close> and the loop, and the request after it, which alone would succeed, is
  never attempted.
\<close>

theorem main_loop_write_failure_aborts:
  "fst (main_loop sample_runtime (lit ''openscad'') 2
          [\<lparr>req_name = replicate 300 97, req_params = DEFAULT_PARAMS\<rparr>,
           \<lparr>req_name = lit ''Bob'', req_params = DEFAULT_PARAMS\<rparr>] 1 0 0 name_max_world)
     = Inl (OSError (lit ''[Errno 36] File name too long'')) \<and>
   files (snd (main_loop sample_runtime (lit ''openscad'') 2
          [\<lparr>req_name = replicate 300 97, req_params = DEFAULT_PARAMS\<rparr>,
           \<lparr>req_name = lit ''Bob'', req_params = DEFAULT_PARAMS\<rparr>] 1 0 0 name_max_world))
     = Map.empty \<and>
   fst (main_loop sample_runtime (lit ''openscad'') 1
          [\<lparr>req_name = lit ''Bob'', req_params = DEFAULT_PARAMS\<rparr>] 1 0 0 name_max_world)
     = Inr (1, 0)"
proof -
  let ?rt = sample_runtime
  let ?w = "\<lambda>s. print s [] name_max_world"
  have run: "subprocess_run ?rt = fake_openscad id"
    by (simp add: sample_runtime_def)
  obtain c where c: "scad_content ?rt (replicate 300 97) DEFAULT_PARAMS = Inr c"
    using scad_content_DEFAULT by blast
  have long: "generate_stl ?rt (lit ''openscad'') (replicate 300 97) DEFAULT_PARAMS OUTPUT_DIR (?w s) =
                (Inl (OSError (lit ''[Errno 36] File name too long'')), ?w s)" for s
    by (rule generate_stl_raises) (simp add: create_temp_scad_cases c write_fault_long)
  obtain b where b: "scad_content ?rt (lit ''Bob'') DEFAULT_PARAMS = Inr b"
    using scad_content_DEFAULT by blast
  have wf: "write_fault (?w s) (temp_scad ?rt OUTPUT_DIR (lit ''Bob'')) = None" for s
    by (simp add: paths_Bob write_fault_Bob)
  have rf: "remove_fault (?w s) p = None" for s p
    by (simp add: name_max_world_def empty_world_def)
  have bob: "fst (generate_stl ?rt (lit ''openscad'') (lit ''Bob'') DEFAULT_PARAMS OUTPUT_DIR (?w s)) = Inr True" for s
    using generate_stl_fake(1) [OF run b wf, of "lit ''openscad''" s] rf by simp
  have e: "files name_max_world = Map.empty"
    by (simp add: name_max_world_def empty_world_def)
  show ?thesis
    by (simp add: main_loop_Cons long bob e del: main_loop.simps(2))
qed

subsection \<open>Sample runs\<close>

lemma sample_run: "subprocess_run sample_runtime = fake_openscad id"
  by (simp add: sample_runtime_def)

lemma empty_world_fields:
  "files empty_world = Map.empty" "write_fault empty_world p = None" "remove_fault empty_world p = None"
  by (simp_all add: empty_world_def)

lemma scad_content_names_differ:
  assumes "scad_content rt (lit ''A/B'') p1 = Inr c1" and "scad_content rt (lit ''A B'') p2 = Inr c2"
  shows "c1 \<noteq> c2"
proof
  assume eq: "c1 = c2"
  from scad_content_starts [OF assms(1)] obtain t1
    where 1: "c1 = lit ''// Auto-generated nametag for: '' @ lit ''A/B'' @ NL @ t1" by blast
  from scad_content_starts [OF assms(2)] obtain t2
    where 2: "c2 = lit ''// Auto-generated nametag for: '' @ lit ''A B'' @ NL @ t2" by blast
  from eq 1 2 have "lit ''A/B'' @ NL @ t1 = lit ''A B'' @ NL @ t2" by simp
  then show False by (simp add: lit_def)
qed

text \<open>
  Claim C8. The display names A/B and A B both sanitise to A_B and so share one output path.
  With a tool that writes the model of the script it is given to the target of \<open>-o\<close>,
  processing both in one run succeeds twice and leaves exactly one file behind, at that path,
  holding the model of the later request's script (which differs from the earlier one's).
\<close>

theorem sanitize_collision_later_wins:
  assumes "subprocess_run rt = fake_openscad geometry"
    and "scad_content rt (lit ''A/B'') p1 = Inr c1"
    and "scad_content rt (lit ''A B'') p2 = Inr c2"
    and "write_fault w (lit ''generated_nametags/temp_A_B.scad'') = None"
    and "remove_fault w (lit ''generated_nametags/temp_A_B.scad'') = None"
  shows "sanitize_filename rt (lit ''A/B'') = lit ''A_B'' \<and>
         sanitize_filename rt (lit ''A B'') = lit ''A_B'' \<and>
         output_stl rt OUTPUT_DIR (lit ''A/B'') = lit ''generated_nametags/A_B.stl'' \<and>
         output_stl rt OUTPUT_DIR (lit ''A B'') = lit ''generated_nametags/A_B.stl'' \<and>
         fst (main_loop rt path 2
                [\<lparr>req_name = lit ''A/B'', req_params = p1\<rparr>,
                 \<lparr>req_name = lit ''A B'', req_params = p2\<rparr>] 1 0 0 w) = Inr (2, 0) \<and>
         files (snd (main_loop rt path 2
                [\<lparr>req_name = lit ''A/B'', req_params = p1\<rparr>,
                 \<lparr>req_name = lit ''A B'', req_params = p2\<rparr>] 1 0 0 w)) =
           (files w)(lit ''generated_nametags/temp_A_B.scad'' := None,
                     lit ''generated_nametags/A_B.stl'' \<mapsto> geometry c2) \<and>
         c1 \<noteq> c2"
proof -
  let ?T = "lit ''generated_nametags/temp_A_B.scad''" and ?O = "lit ''generated_nametags/A_B.stl''"
  note pa = paths_A_B [OF sanitize_A_slash_B, of rt] and pb = paths_A_B [OF sanitize_A_space_B, of rt]
  let ?wa = "print (lit ''['' @ str_int (int 1) @ lit ''/'' @ str_int (int 2) @ lit ''] '') [] w"
  let ?ga = "generate_stl rt path (lit ''A/B'') p1 OUTPUT_DIR ?wa"
  let ?wb = "print (lit ''['' @ str_int (int (1 + 1)) @ lit ''/'' @ str_int (int 2) @ lit ''] '') [] (snd ?ga)"
  let ?gb = "generate_stl rt path (lit ''A B'') p2 OUTPUT_DIR ?wb"
  have wfa: "write_fault ?wa (temp_scad rt OUTPUT_DIR (lit ''A/B'')) = None"
    using assms(4) pa by simp
  note ga = generate_stl_fake [OF assms(1) assms(2) wfa, of path]
  have ga1: "fst ?ga = Inr True"
    using ga(1) assms(5) pa by simp
  have ga2: "files (snd ?ga) = (files w)(?T := None, ?O \<mapsto> geometry c1)"
    using ga(2) assms(5) pa by simp
  have wfb: "write_fault ?wb (temp_scad rt OUTPUT_DIR (lit ''A B'')) = None"
    using assms(4) pb ga(3) by simp
  have rfb: "remove_fault ?wb ?T = None"
    using assms(5) ga(4) by simp
  note gb = generate_stl_fake [OF assms(1) assms(3) wfb, of path]
  have gb1: "fst ?gb = Inr True"
    using gb(1) rfb pb by simp
  have gb2: "files (snd ?gb) = (files w)(?T := None, ?O \<mapsto> geometry c2)"
    using gb(2) rfb pb ga2 by simp
  have loop: "main_loop rt path 2
                [\<lparr>req_name = lit ''A/B'', req_params = p1\<rparr>,
                 \<lparr>req_name = lit ''A B'', req_params = p2\<rparr>] 1 0 0 w = (Inr (2, 0), snd ?gb)"
    using ga1 gb1 by (simp add: main_loop_Cons Let_def del: main_loop.simps(2))
  show ?thesis
    using sanitize_A_slash_B sanitize_A_space_B pa pb loop gb2
      scad_content_names_differ [OF assms(2,3)]
    by simp
qed

theorem sanitize_collision_later_wins_witness:
  "fst (main_loop sample_runtime (lit ''openscad'') 2
          [\<lparr>req_name = lit ''A/B'', req_params = DEFAULT_PARAMS\<rparr>,
           \<lparr>req_name = lit ''A B'', req_params = DEFAULT_PARAMS\<rparr>] 1 0 0 empty_world) = Inr (2, 0) \<and>
   dom (files (snd (main_loop sample_runtime (lit ''openscad'') 2
          [\<lparr>req_name = lit ''A/B'', req_params = DEFAULT_PARAMS\<rparr>,
           \<lparr>req_name = lit ''A B'', req_params = DEFAULT_PARAMS\<rparr>] 1 0 0 empty_world))) =
     {lit ''generated_nametags/A_B.stl''}"
proof -
  obtain c1 where c1: "scad_content sample_runtime (lit ''A/B'') DEFAULT_PARAMS = Inr c1"
    using scad_content_DEFAULT by blast
  obtain c2 where c2: "scad_content sample_runtime (lit ''A B'') DEFAULT_PARAMS = Inr c2"
    using scad_content_DEFAULT by blast
  from sanitize_collision_later_wins [OF sample_run c1 c2 empty_world_fields(2) empty_world_fields(3), of "lit ''openscad''"]
  show ?thesis
    by (simp add: empty_world_fields(1))
qed

theorem create_temp_scad_deterministic_witness:
  "\<exists>c. files (snd (create_temp_scad sample_runtime (lit ''Bob'') DEFAULT_PARAMS (lit ''a.scad'') empty_world))
          (lit ''a.scad'') = Some c \<and>
        files (snd (create_temp_scad sample_runtime (lit ''Bob'') DEFAULT_PARAMS (lit ''b.scad'') sticky_world))
          (lit ''b.scad'') = Some c"
proof -
  obtain c where c: "scad_content sample_runtime (lit ''Bob'') DEFAULT_PARAMS = Inr c"
    using scad_content_DEFAULT by blast
  let ?a = "create_temp_scad sample_runtime (lit ''Bob'') DEFAULT_PARAMS (lit ''a.scad'') empty_world"
  let ?b = "create_temp_scad sample_runtime (lit ''Bob'') DEFAULT_PARAMS (lit ''b.scad'') sticky_world"
  have a: "?a = (Inr (), snd ?a)"
    using c by (simp add: create_temp_scad_cases empty_world_fields)
  have b: "?b = (Inr (), snd ?b)"
    using c by (simp add: create_temp_scad_cases sticky_world_def empty_world_fields)
  from create_temp_scad_deterministic [OF a b] show ?thesis by blast
qed

theorem main_counters_sum_witness:
  "\<exists>successful failed w1.
     main_loop sample_runtime (lit ''openscad'') 1
       [\<lparr>req_name = lit ''Bob'', req_params = DEFAULT_PARAMS\<rparr>] 1 0 0 empty_world
       = (Inr (successful, failed), w1) \<and>
     successful + failed = 1"
proof -
  let ?reqs = "[\<lparr>req_name = lit ''Bob'', req_params = DEFAULT_PARAMS\<rparr>]"
  let ?w = "\<lambda>s. print s [] empty_world"
  obtain b where b: "scad_content sample_runtime (lit ''Bob'') DEFAULT_PARAMS = Inr b"
    using scad_content_DEFAULT by blast
  have wf: "write_fault (?w s) (temp_scad sample_runtime OUTPUT_DIR (lit ''Bob'')) = None" for s
    by (simp add: empty_world_fields)
  have bob: "fst (generate_stl sample_runtime (lit ''openscad'') (lit ''Bob'') DEFAULT_PARAMS OUTPUT_DIR (?w s))
               = Inr True" for s
    using generate_stl_fake(1) [OF sample_run b wf, of "lit ''openscad''" s]
    by (simp add: empty_world_fields)
  have "fst (main_loop sample_runtime (lit ''openscad'') (length ?reqs) ?reqs 1 0 0 empty_world) = Inr (1, 0)"
    by (simp add: main_loop_Cons bob del: main_loop.simps(2))
  then have "fst (main_generate sample_runtime (lit ''openscad'') ?reqs empty_world) = Inr ()"
    by (simp add: main_generate_def split: prod.splits sum.splits)
  then have h: "main_generate sample_runtime (lit ''openscad'') ?reqs empty_world =
                  (Inr (), snd (main_generate sample_runtime (lit ''openscad'') ?reqs empty_world))"
    by (metis prod.collapse)
  from main_counters_sum [OF h] show ?thesis by auto
qed

text \<open>
  Claim C3, at an attempt whose temporary script cannot be removed: the script is written,
  the process exits with code zero and the target model file exists afterwards, the code
  prints the Success marker, \<open>os.remove\<close> raises inside the \<open>try\<close> block, the handler prints
  the Error marker, and the outcome is \<open>False\<close>; the model file and the script both stay.
\<close>

theorem generate_stl_success_then_failure:
  "\<exists>w1 w3 result.
     create_temp_scad sample_runtime (lit ''Bob'') DEFAULT_PARAMS
       (temp_scad sample_runtime OUTPUT_DIR (lit ''Bob'')) sticky_world = (Inr (), w1) \<and>
     subprocess_run sample_runtime
       [lit ''openscad'', lit ''-o'', output_stl sample_runtime OUTPUT_DIR (lit ''Bob''),
        temp_scad sample_runtime OUTPUT_DIR (lit ''Bob'')] 60
       (print (lit ''Generating STL for: '' @ lit ''Bob'' @ lit ''...'') (lit '' '') w1) = (Inr result, w3) \<and>
     returncode result = 0 \<and>
     os_path_exists (output_stl sample_runtime OUTPUT_DIR (lit ''Bob'')) w3 \<and>
     fst (generate_stl sample_runtime (lit ''openscad'') (lit ''Bob'') DEFAULT_PARAMS OUTPUT_DIR sticky_world)
       = Inr False \<and>
     console (snd (generate_stl sample_runtime (lit ''openscad'') (lit ''Bob'') DEFAULT_PARAMS OUTPUT_DIR
                     sticky_world))
       = lit ''Generating STL for: Bob... '' @
         CHECK_MARK # lit '' Success'' @ NL @
         BALLOT_X # lit '' Error: [Errno 1] Operation not permitted'' @ NL \<and>
     dom (files (snd (generate_stl sample_runtime (lit ''openscad'') (lit ''Bob'') DEFAULT_PARAMS OUTPUT_DIR
                        sticky_world)))
       = {lit ''generated_nametags/temp_Bob.scad'', lit ''generated_nametags/Bob.stl''}"
proof -
  let ?T = "temp_scad sample_runtime OUTPUT_DIR (lit ''Bob'')"
  let ?O = "output_stl sample_runtime OUTPUT_DIR (lit ''Bob'')"
  let ?g = "generate_stl sample_runtime (lit ''openscad'') (lit ''Bob'') DEFAULT_PARAMS OUTPUT_DIR sticky_world"
  obtain c where c: "scad_content sample_runtime (lit ''Bob'') DEFAULT_PARAMS = Inr c"
    using scad_content_total [OF dom_DEFAULT_PARAMS_keys] by blast
  have run: "subprocess_run sample_runtime = fake_openscad id"
    by (simp add: sample_runtime_def)
  have wf: "write_fault sticky_world ?T = None"
    by (simp add: sticky_world_def empty_world_def)
  have rf: "remove_fault sticky_world ?T = Some (PermissionError (lit ''[Errno 1] Operation not permitted''))"
    by (simp add: sticky_world_def empty_world_def)
  have st: "files sticky_world = Map.empty" "console sticky_world = []"
    by (simp_all add: sticky_world_def empty_world_def)
  let ?w1 = "sticky_world\<lparr>files := (files sticky_world)(?T \<mapsto> c)\<rparr>"
  let ?w2 = "print (lit ''Generating STL for: '' @ lit ''Bob'' @ lit ''...'') (lit '' '') ?w1"
  let ?w3 = "?w2\<lparr>files := (files ?w2)(?O \<mapsto> id c)\<rparr>"
  have a: "create_temp_scad sample_runtime (lit ''Bob'') DEFAULT_PARAMS ?T sticky_world = (Inr (), ?w1)"
    using c wf by (simp add: create_temp_scad_cases)
  have b: "subprocess_run sample_runtime [lit ''openscad'', lit ''-o'', ?O, ?T] 60 ?w2 =
             (Inr \<lparr>returncode = 0, stderr = []\<rparr>, ?w3)"
    unfolding run by (rule fake_openscad_generate) simp
  have e: "os_path_exists ?O ?w3" by (simp add: os_path_exists_def)
  have g: "?g = except_handlers (PermissionError (lit ''[Errno 1] Operation not permitted''))
                  (print (CHECK_MARK # lit '' Success'') NL ?w3)"
    using rf by (simp add: generate_stl_run [OF a b] os_path_exists_def os_remove_cases)
  have f: "fst ?g = Inr False"
    by (simp add: g)
  have k: "console (snd ?g) =
             lit ''Generating STL for: Bob... '' @
             CHECK_MARK # lit '' Success'' @ NL @
             BALLOT_X # lit '' Error: [Errno 1] Operation not permitted'' @ NL"
    unfolding g by (simp add: st lit_def)
  have d: "dom (files (snd ?g)) = {lit ''generated_nametags/temp_Bob.scad'', lit ''generated_nametags/Bob.stl''}"
    using paths_Bob [of sample_runtime] by (auto simp: g st)
  from a b e f k d show ?thesis
    by (intro exI [of _ ?w1] exI [of _ ?w3] exI [of _ "\<lparr>returncode = 0, stderr = []\<rparr>"]) simp
qed

end
